theory Spec2Isabelle
  imports Complex_Main "HOL-Library.Word"
begin

section \<open>The detection endpoint of \<^verbatim>\<open>cam_test_dir/yolo_server.py\<close>\<close>

text \<open>
  The module loads a pretrained detector once (\<^verbatim>\<open>model = torch.hub.load(...)\<close>) and
  serves one route, \<^verbatim>\<open>POST /detect/\<close>, whose handler \<^verbatim>\<open>detect_objects\<close> decodes the
  upload, calls the detector and reshapes the first result set into a list of
  dictionaries. The image decoder, the model hub and the detector are external
  libraries: they enter the development as parameters (records of functions), and
  every exception they or the handler's own conversions can raise is a value.
\<close>

subsection \<open>Python values\<close>

type_synonym bytes = "8 word list"

text \<open>
  A Python \<^verbatim>\<open>float\<close>: a finite value, an infinity or a NaN. The handler does no
  arithmetic on floats; it only copies them (\<^verbatim>\<open>float(x)\<close>) and truncates one
  (\<^verbatim>\<open>int(x)\<close>), and both are exact on the real value of a finite float.
  The two signed zeros are not told apart.
\<close>

datatype pyfloat = Finite real | PosInf | NegInf | NaN

datatype error =
    DecodeError       \<comment> \<open>raised by \<^verbatim>\<open>Image.open\<close>\<close>
  | InferenceError    \<comment> \<open>raised inside \<^verbatim>\<open>model(image)\<close>\<close>
  | IndexError        \<comment> \<open>\<^verbatim>\<open>results.xyxy[0]\<close> on an empty list\<close>
  | ValueError        \<comment> \<open>unpacking a row of the wrong length, \<^verbatim>\<open>int(nan)\<close>\<close>
  | OverflowError     \<comment> \<open>\<^verbatim>\<open>int(inf)\<close>\<close>
  | LookupError       \<comment> \<open>\<^verbatim>\<open>model.names[k]\<close> with no entry for \<^verbatim>\<open>k\<close>\<close>

text \<open>The values the handler builds: ints, floats, strings, lists and dict literals
  (a dict literal keeps its keys in the order written).\<close>

datatype pyval =
    PyInt int
  | PyFloat pyfloat
  | PyStr string
  | PyList "pyval list"
  | PyDict "(string \<times> pyval) list"

text \<open>\<^verbatim>\<open>int(x)\<close> on a float truncates towards zero and raises on NaN and infinities.\<close>

definition py_int :: "pyfloat \<Rightarrow> error + int" where
  "py_int x =
     (case x of
        Finite r \<Rightarrow> Inr (if 0 \<le> r then \<lfloor>r\<rfloor> else \<lceil>r\<rceil>)
      | PosInf \<Rightarrow> Inl OverflowError
      | NegInf \<Rightarrow> Inl OverflowError
      | NaN \<Rightarrow> Inl ValueError)"

text \<open>\<^verbatim>\<open>float(x)\<close> on a float returns it.\<close>

definition py_float :: "pyfloat \<Rightarrow> pyfloat" where
  "py_float x = x"

subsection \<open>The external collaborators\<close>

text \<open>A result tensor is a list of rows; \<^verbatim>\<open>row.tolist()\<close> is a list of floats.\<close>

type_synonym tensor = "pyfloat list list"

record results =
  xyxy :: "tensor list"

text \<open>
  The model handle: calling it (\<^verbatim>\<open>model(image)\<close>) returns results or raises;
  \<^verbatim>\<open>model.names\<close> is the class-index-to-name table (a dict, or a list read
  as the map of its valid indices).
\<close>

record 'img model_handle =
  forward :: "'img \<Rightarrow> results option"
  names :: "int \<rightharpoonup> string"

text \<open>
  \<^verbatim>\<open>Image.open(io.BytesIO(data))\<close> returns an image or raises;
  \<^verbatim>\<open>torch.hub.load(repo, name)\<close> returns a handle or raises, and may change the
  external store (its download cache).
\<close>

record ('img, 'st) env =
  Image_open :: "bytes \<Rightarrow> 'img option"
  hub_load :: "string \<Rightarrow> string \<Rightarrow> 'st \<Rightarrow> ('img model_handle \<times> 'st) option"

datatype UploadFile = UploadFile bytes

fun file_read :: "UploadFile \<Rightarrow> bytes" where
  "file_read (UploadFile data) = data"

subsection \<open>Process state\<close>

text \<open>The module's global \<^verbatim>\<open>model\<close>, and everything outside the process that
  outlives a request (disk, external stores).\<close>

record ('img, 'st) process =
  model :: "'img model_handle"
  store :: 'st

text \<open>Module level: \<^verbatim>\<open>model = torch.hub.load('ultralytics/yolov5', 'yolov5s')\<close>.
  If the load raises, the import fails and no process serves requests.\<close>

definition startup :: "('img, 'st) env \<Rightarrow> 'st \<Rightarrow> ('img, 'st) process option" where
  "startup e st =
     (case hub_load e ''ultralytics/yolov5'' ''yolov5s'' st of
        None \<Rightarrow> None
      | Some (m, st') \<Rightarrow> Some \<lparr>model = m, store = st'\<rparr>)"

subsection \<open>The handler\<close>

text \<open>\<^verbatim>\<open>x_min, y_min, x_max, y_max, confidence, class_id = detection.tolist()\<close>:
  a ValueError unless the list has exactly six elements.\<close>

fun unpack6 ::
  "pyfloat list \<Rightarrow> error + (pyfloat \<times> pyfloat \<times> pyfloat \<times> pyfloat \<times> pyfloat \<times> pyfloat)" where
  "unpack6 [x_min, y_min, x_max, y_max, confidence, class_id] =
     Inr (x_min, y_min, x_max, y_max, confidence, class_id)"
| "unpack6 _ = Inl ValueError"

text \<open>
  The loop body: the dict literal appended for one row. Its entries are evaluated in
  the order written: \<^verbatim>\<open>int(class_id)\<close>, then \<^verbatim>\<open>model.names[int(class_id)]\<close>
  (a second conversion, then the unguarded lookup), then the floats.
\<close>

definition detection_dict :: "(int \<rightharpoonup> string) \<Rightarrow> pyfloat list \<Rightarrow> error + pyval" where
  "detection_dict nms detection =
     (case unpack6 detection of
        Inl e \<Rightarrow> Inl e
      | Inr (x_min, y_min, x_max, y_max, confidence, class_id) \<Rightarrow>
          (case py_int class_id of
             Inl e \<Rightarrow> Inl e
           | Inr k \<Rightarrow>
               (case py_int class_id of
                  Inl e \<Rightarrow> Inl e
                | Inr k' \<Rightarrow>
                    (case nms k' of
                       None \<Rightarrow> Inl LookupError
                     | Some name \<Rightarrow>
                         Inr (PyDict
                           [(''class_id'', PyInt k),
                            (''class_name'', PyStr name),
                            (''confidence'', PyFloat (py_float confidence)),
                            (''bbox'', PyList [PyFloat (py_float x_min), PyFloat (py_float y_min),
                                               PyFloat (py_float x_max), PyFloat (py_float y_max)])])))))"

text \<open>\<^verbatim>\<open>for detection in results.xyxy[0]: detections.append({...})\<close>, with the
  list \<^verbatim>\<open>detections\<close> as accumulator; an exception in the body leaves the loop.\<close>

fun detect_loop :: "(int \<rightharpoonup> string) \<Rightarrow> tensor \<Rightarrow> pyval list \<Rightarrow> error + pyval list" where
  "detect_loop nms [] detections = Inr detections"
| "detect_loop nms (detection # rest) detections =
     (case detection_dict nms detection of
        Inl e \<Rightarrow> Inl e
      | Inr d \<Rightarrow> detect_loop nms rest (detections @ [d]))"

text \<open>\<^verbatim>\<open>results.xyxy[0]\<close>.\<close>

definition first_result :: "results \<Rightarrow> error + tensor" where
  "first_result r = (case xyxy r of [] \<Rightarrow> Inl IndexError | t # _ \<Rightarrow> Inr t)"

text \<open>
  The handler from the line after \<^verbatim>\<open>image_data = await file.read()\<close> to its
  \<^verbatim>\<open>return\<close>: this part runs without a suspension point. It reads the global
  \<^verbatim>\<open>model\<close> and assigns to no global, so the process state it hands back is the
  one it was given.
\<close>

definition handle_image ::
  "('img, 'st) env \<Rightarrow> ('img, 'st) process \<Rightarrow> bytes \<Rightarrow> (error + pyval) \<times> ('img, 'st) process" where
  "handle_image e p image_data =
     (case Image_open e image_data of
        None \<Rightarrow> (Inl DecodeError, p)
      | Some img \<Rightarrow>
          (case forward (model p) img of
             None \<Rightarrow> (Inl InferenceError, p)
           | Some res \<Rightarrow>
               (case first_result res of
                  Inl err \<Rightarrow> (Inl err, p)
                | Inr t \<Rightarrow>
                    (case detect_loop (names (model p)) t [] of
                       Inl err \<Rightarrow> (Inl err, p)
                     | Inr detections \<Rightarrow>
                         (Inr (PyDict [(''detections'', PyList detections)]), p)))))"

definition detect_objects ::
  "('img, 'st) env \<Rightarrow> ('img, 'st) process \<Rightarrow> UploadFile \<Rightarrow> (error + pyval) \<times> ('img, 'st) process" where
  "detect_objects e p file = (let image_data = file_read file in handle_image e p image_data)"

subsection \<open>Requests in flight\<close>

text \<open>
  The handler is a coroutine with one suspension point, \<^verbatim>\<open>await file.read()\<close>.
  The event loop runs one coroutine at a time and switches only there, so a request
  in flight is in one of three places: suspended at the read, resumed with its own
  \<^verbatim>\<open>image_data\<close>, or returned. Locals live in the coroutine's own frame.
\<close>

datatype task =
    Awaiting_read UploadFile
  | Read_done bytes
  | Responded "error + pyval"

text \<open>The event loop resumes task \<open>i\<close> and runs it to its next suspension point or
  to its return.\<close>

definition step ::
  "('img, 'st) env \<Rightarrow> ('img, 'st) process \<times> task list \<Rightarrow> nat \<Rightarrow> ('img, 'st) process \<times> task list" where
  "step e s i =
     (case s of (p, tasks) \<Rightarrow>
        if i < length tasks then
          (case tasks ! i of
             Awaiting_read file \<Rightarrow> (p, tasks[i := Read_done (file_read file)])
           | Read_done image_data \<Rightarrow>
               (case handle_image e p image_data of (r, p') \<Rightarrow> (p', tasks[i := Responded r]))
           | Responded r \<Rightarrow> (p, tasks))
        else (p, tasks))"

fun run ::
  "('img, 'st) env \<Rightarrow> ('img, 'st) process \<times> task list \<Rightarrow> nat list \<Rightarrow> ('img, 'st) process \<times> task list" where
  "run e s [] = s"
| "run e s (i # schedule) = run e (step e s i) schedule"

text \<open>The life of the process: the module is imported (the model is loaded), then
  the requests are served in the order the schedule resumes them.\<close>

definition serve ::
  "('img, 'st) env \<Rightarrow> 'st \<Rightarrow> UploadFile list \<Rightarrow> nat list \<Rightarrow> (('img, 'st) process \<times> task list) option" where
  "serve e st files schedule =
     (case startup e st of
        None \<Rightarrow> None
      | Some p \<Rightarrow> Some (run e (p, map Awaiting_read files) schedule))"

text \<open>Where task \<open>i\<close> stands after it has been resumed \<open>n\<close> times.\<close>

definition task_after ::
  "('img, 'st) env \<Rightarrow> ('img, 'st) process \<Rightarrow> UploadFile \<Rightarrow> nat \<Rightarrow> task" where
  "task_after e p file n =
     (if n = 0 then Awaiting_read file
      else if n = 1 then Read_done (file_read file)
      else Responded (fst (detect_objects e p file)))"

subsection \<open>The record shape and the bounds of the specification\<close>

text \<open>The Detection record of the specification's data model:
  \<^verbatim>\<open>{class_id, class_name, confidence, bbox: [x_min, y_min, x_max, y_max]}\<close>.\<close>

definition spec_Detection_record ::
  "int \<Rightarrow> string \<Rightarrow> pyfloat \<Rightarrow> pyfloat \<Rightarrow> pyfloat \<Rightarrow> pyfloat \<Rightarrow> pyfloat \<Rightarrow> pyval" where
  "spec_Detection_record class_id class_name confidence x_min y_min x_max y_max =
     PyDict [(''class_id'', PyInt class_id),
             (''class_name'', PyStr class_name),
             (''confidence'', PyFloat confidence),
             (''bbox'', PyList [PyFloat x_min, PyFloat y_min, PyFloat x_max, PyFloat y_max])]"

text \<open>The specification's bounds: a confidence in \<open>[0, 1]\<close>, and a box of four finite
  floats with \<open>x_min \<le> x_max\<close> and \<open>y_min \<le> y_max\<close>.\<close>

definition spec_confidence_ok :: "pyfloat \<Rightarrow> bool" where
  "spec_confidence_ok c = (case c of Finite r \<Rightarrow> 0 \<le> r \<and> r \<le> 1 | _ \<Rightarrow> False)"

definition spec_finite_le :: "pyfloat \<Rightarrow> pyfloat \<Rightarrow> bool" where
  "spec_finite_le a b =
     (case a of Finite x \<Rightarrow> (case b of Finite y \<Rightarrow> x \<le> y | _ \<Rightarrow> False) | _ \<Rightarrow> False)"

definition spec_bounds ::
  "pyfloat \<Rightarrow> pyfloat \<Rightarrow> pyfloat \<Rightarrow> pyfloat \<Rightarrow> pyfloat \<Rightarrow> bool" where
  "spec_bounds confidence x_min y_min x_max y_max =
     (spec_confidence_ok confidence \<and> spec_finite_le x_min x_max \<and> spec_finite_le y_min y_max)"

text \<open>The bounds read off a returned dictionary, and off a raw row.\<close>

definition spec_record_bounds :: "pyval \<Rightarrow> bool" where
  "spec_record_bounds d =
     (case d of
        PyDict kv \<Rightarrow>
          (case map_of kv ''confidence'' of
             Some (PyFloat c) \<Rightarrow>
               (case map_of kv ''bbox'' of
                  Some (PyList [PyFloat x_min, PyFloat y_min, PyFloat x_max, PyFloat y_max]) \<Rightarrow>
                    spec_bounds c x_min y_min x_max y_max
                | _ \<Rightarrow> False)
           | _ \<Rightarrow> False)
      | _ \<Rightarrow> False)"

definition spec_row_bounds :: "pyfloat list \<Rightarrow> bool" where
  "spec_row_bounds row =
     (case unpack6 row of
        Inl _ \<Rightarrow> False
      | Inr (x_min, y_min, x_max, y_max, confidence, class_id) \<Rightarrow>
          spec_bounds confidence x_min y_min x_max y_max)"

text \<open>
  Modelled from the spec: the pretrained detector is obtained from a model hub at
  startup and is not part of the repository. The specification gives every detection
  a confidence in \<open>[0, 1]\<close> and a box of four finite floats in pixel coordinates with
  \<open>x_min \<le> x_max\<close> and \<open>y_min \<le> y_max\<close>; these are the values of the detector's
  raw 6-tuples, so the contract is stated of every row of every result set.
\<close>

definition detector_contract :: "results \<Rightarrow> bool" where
  "detector_contract res = list_all (list_all spec_row_bounds) (xyxy res)"

subsection \<open>A small concrete service\<close>

text \<open>
  An instance of the parameters, to run the handler on: images are byte strings that
  start with the JPEG marker \<open>FF D8\<close>, the store lists the files of the hub's cache,
  and the detector reads its answer off the third byte of the image.
\<close>

definition demo_names :: "int \<rightharpoonup> string" where
  "demo_names = [0 \<mapsto> ''person'', 16 \<mapsto> ''dog'']"

definition demo_rows :: tensor where
  "demo_rows =
     [[Finite 10, Finite 20, Finite 110, Finite 220, Finite (9 / 10), Finite 0],
      [Finite 5, Finite 6, Finite 50, Finite 60, Finite (1 / 2), Finite 16]]"

definition demo_forward :: "bytes \<Rightarrow> results option" where
  "demo_forward img =
     (case drop 2 img of
        [] \<Rightarrow> Some \<lparr>xyxy = [[]]\<rparr>
      | b # _ \<Rightarrow>
          if b = 1 then Some \<lparr>xyxy = [demo_rows]\<rparr>
          else if b = 2 then
            Some \<lparr>xyxy = [[[Finite 1, Finite 2, Finite 3, Finite 4, Finite (3 / 4), Finite 16]]]\<rparr>
          else None)"

definition demo_model :: "bytes model_handle" where
  "demo_model = \<lparr>forward = demo_forward, names = demo_names\<rparr>"

definition demo_Image_open :: "bytes \<Rightarrow> bytes option" where
  "demo_Image_open data = (if take 2 data = [0xFF, 0xD8] then Some data else None)"

definition demo_env :: "(bytes, string list) env" where
  "demo_env =
     \<lparr>Image_open = demo_Image_open,
      hub_load = (\<lambda>repo name st. Some (demo_model, st @ [name]))\<rparr>"

definition demo_process :: "(bytes, string list) process" where
  "demo_process = \<lparr>model = demo_model, store = [''yolov5s'']\<rparr>"

text \<open>A detector whose table has no entry for a class index it reports.\<close>

definition gap_model :: "bytes model_handle" where
  "gap_model =
     \<lparr>forward = (\<lambda>img. Some \<lparr>xyxy =
         [[[Finite 10, Finite 20, Finite 110, Finite 220, Finite (9 / 10), Finite 0],
           [Finite 5, Finite 6, Finite 50, Finite 60, Finite (1 / 2), Finite 80]]]\<rparr>),
      names = demo_names\<rparr>"

definition gap_process :: "(bytes, string list) process" where
  "gap_process = \<lparr>model = gap_model, store = []\<rparr>"

section \<open>Properties\<close>

subsection \<open>The conversion of one row, and the loop\<close>

lemma unpack6_Inr:
  "unpack6 row = Inr (a, b, c, d, x, y) \<Longrightarrow> row = [a, b, c, d, x, y]"
  by (erule unpack6.elims) simp_all

lemma detection_dict_Inr:
  assumes "detection_dict nms row = Inr d"
  shows "\<exists>x_min y_min x_max y_max confidence class_id k name.
           row = [x_min, y_min, x_max, y_max, confidence, class_id] \<and>
           py_int class_id = Inr k \<and> nms k = Some name \<and>
           d = spec_Detection_record k name confidence x_min y_min x_max y_max"
  using assms
  by (auto simp: detection_dict_def spec_Detection_record_def py_float_def
           split: sum.splits option.splits dest: unpack6_Inr)

lemma record_bounds_of_row:
  "detection_dict nms row = Inr d \<Longrightarrow> spec_record_bounds d = spec_row_bounds row"
  by (auto simp: detection_dict_def spec_record_bounds_def spec_row_bounds_def py_float_def
           split: sum.splits option.splits)

lemma spec_bounds_Finite:
  assumes "spec_bounds confidence x_min y_min x_max y_max"
  shows "\<exists>c x0 y0 x1 y1.
           confidence = Finite c \<and> x_min = Finite x0 \<and> y_min = Finite y0 \<and>
           x_max = Finite x1 \<and> y_max = Finite y1 \<and>
           0 \<le> c \<and> c \<le> 1 \<and> x0 \<le> x1 \<and> y0 \<le> y1"
  using assms
  by (auto simp: spec_bounds_def spec_confidence_ok_def spec_finite_le_def
           split: pyfloat.splits)

lemma detection_dict_within_bounds:
  assumes "detection_dict nms row = Inr d" and "spec_row_bounds row"
  shows "\<exists>k name class_id c x0 y0 x1 y1.
           row = [Finite x0, Finite y0, Finite x1, Finite y1, Finite c, class_id] \<and>
           py_int class_id = Inr k \<and> nms k = Some name \<and>
           d = spec_Detection_record k name (Finite c) (Finite x0) (Finite y0) (Finite x1) (Finite y1) \<and>
           0 \<le> c \<and> c \<le> 1 \<and> x0 \<le> x1 \<and> y0 \<le> y1"
proof -
  from detection_dict_Inr [OF assms(1)]
  obtain x_min y_min x_max y_max confidence class_id k name
    where row: "row = [x_min, y_min, x_max, y_max, confidence, class_id]"
      and k: "py_int class_id = Inr k" and n: "nms k = Some name"
      and d: "d = spec_Detection_record k name confidence x_min y_min x_max y_max"
    by blast
  from assms(2) row have "spec_bounds confidence x_min y_min x_max y_max"
    by (simp add: spec_row_bounds_def)
  from spec_bounds_Finite [OF this] obtain c x0 y0 x1 y1
    where "confidence = Finite c" "x_min = Finite x0" "y_min = Finite y0"
      "x_max = Finite x1" "y_max = Finite y1" "0 \<le> c" "c \<le> 1" "x0 \<le> x1" "y0 \<le> y1"
    by blast
  with row k n d show ?thesis by blast
qed

lemma detect_loop_Inr:
  "detect_loop nms t acc = Inr out \<Longrightarrow>
     \<exists>ds. out = acc @ ds \<and> list_all2 (\<lambda>row d. detection_dict nms row = Inr d) t ds"
proof (induction t arbitrary: acc)
  case Nil
  then show ?case by simp
next
  case (Cons row t)
  then obtain d where d: "detection_dict nms row = Inr d"
    and rest: "detect_loop nms t (acc @ [d]) = Inr out"
    by (auto split: sum.splits)
  from Cons.IH [OF rest] obtain ds where "out = (acc @ [d]) @ ds"
    and "list_all2 (\<lambda>row d. detection_dict nms row = Inr d) t ds" by blast
  with d have "out = acc @ (d # ds) \<and> list_all2 (\<lambda>row d. detection_dict nms row = Inr d) (row # t) (d # ds)"
    by simp
  then show ?case by blast
qed

lemma detect_loop_all_ok:
  "list_all2 (\<lambda>row d. detection_dict nms row = Inr d) t ds \<Longrightarrow>
     detect_loop nms t acc = Inr (acc @ ds)"
  by (induction t ds arbitrary: acc rule: list_all2_induct) simp_all

lemma detect_loop_append:
  "detect_loop nms pre acc = Inr acc' \<Longrightarrow>
     detect_loop nms (pre @ rest) acc = detect_loop nms rest acc'"
  by (induction pre arbitrary: acc) (auto split: sum.splits)

lemma detect_loop_fails:
  "detection_dict nms row = Inl err \<Longrightarrow> \<exists>err'. detect_loop nms (pre @ row # post) acc = Inl err'"
  by (induction pre arbitrary: acc) (auto split: sum.splits)

lemma all_rows_convert:
  "\<forall>row\<in>set t. \<exists>d. detection_dict nms row = Inr d \<Longrightarrow>
     \<exists>ds. list_all2 (\<lambda>row d. detection_dict nms row = Inr d) t ds"
proof (induction t)
  case Nil
  show ?case by simp
next
  case (Cons row t)
  then obtain d ds where "detection_dict nms row = Inr d"
    and "list_all2 (\<lambda>row d. detection_dict nms row = Inr d) t ds"
    by auto
  then have "list_all2 (\<lambda>row d. detection_dict nms row = Inr d) (row # t) (d # ds)"
    by simp
  then show ?case by blast
qed

subsection \<open>The handler\<close>

lemma detect_objects_result:
  assumes "Image_open e (file_read file) = Some img"
    and "forward (model p) img = Some res"
    and "xyxy res = t # others"
  shows "fst (detect_objects e p file) =
     (case detect_loop (names (model p)) t [] of
        Inl err \<Rightarrow> Inl err
      | Inr detections \<Rightarrow> Inr (PyDict [(''detections'', PyList detections)]))"
  using assms
  by (simp add: detect_objects_def handle_image_def first_result_def split: sum.splits)

lemma detect_objects_Inr:
  assumes "Image_open e (file_read file) = Some img"
    and "forward (model p) img = Some res"
    and "xyxy res = t # others"
    and "fst (detect_objects e p file) = Inr v"
  shows "\<exists>dets. v = PyDict [(''detections'', PyList dets)] \<and>
           list_all2 (\<lambda>row d. detection_dict (names (model p)) row = Inr d) t dets"
proof -
  from detect_objects_result [OF assms(1-3)] assms(4)
  obtain dets where l: "detect_loop (names (model p)) t [] = Inr dets"
    and v: "v = PyDict [(''detections'', PyList dets)]"
    by (auto split: sum.splits)
  from detect_loop_Inr [OF l] v show ?thesis by simp
qed

lemma handle_image_snd: "snd (handle_image e p d) = p"
  by (simp add: handle_image_def split: option.splits sum.splits)

lemma detect_objects_snd: "snd (detect_objects e p file) = p"
  by (simp add: detect_objects_def handle_image_snd)

lemma handle_image_file_read:
  "fst (handle_image e p (file_read file)) = fst (detect_objects e p file)"
  by (simp add: detect_objects_def)

subsection \<open>The scheduler\<close>

lemma step_fst: "fst (step e (p, ts) i) = p"
proof -
  have "\<And>d. (case handle_image e p d of (r, p') \<Rightarrow> (p', ts[i := Responded r])) = (p, ts[i := Responded (fst (handle_image e p d))])"
    using handle_image_snd [of e p] by (simp add: case_prod_beta)
  then show ?thesis
    by (simp add: step_def split: task.splits)
qed

lemma step_snd:
  "snd (step e (p, ts) i) =
     (if i < length ts then
        (case ts ! i of
           Awaiting_read file \<Rightarrow> ts[i := Read_done (file_read file)]
         | Read_done d \<Rightarrow> ts[i := Responded (fst (handle_image e p d))]
         | Responded r \<Rightarrow> ts)
      else ts)"
  by (simp add: step_def case_prod_beta split: task.splits)

lemma step_length: "length (snd (step e (p, ts) i)) = length ts"
  by (simp add: step_snd split: task.splits)

lemma step_others: "j \<noteq> i \<Longrightarrow> snd (step e (p, ts) i) ! j = ts ! j"
  by (simp add: step_snd split: task.splits)

lemma step_own:
  assumes "i < length ts" and "ts ! i = task_after e p file n"
  shows "snd (step e (p, ts) i) ! i = task_after e p file (Suc n)"
proof -
  consider "n = 0" | "n = 1" | "2 \<le> n" by linarith
  then show ?thesis
  proof cases
    case 1
    with assms show ?thesis by (simp add: step_snd task_after_def)
  next
    case 2
    with assms show ?thesis
      by (simp add: step_snd task_after_def handle_image_file_read)
  next
    case 3
    with assms show ?thesis by (simp add: step_snd task_after_def)
  qed
qed

lemma run_tasks:
  assumes "length ts = length files"
    and "\<forall>j<length files. ts ! j = task_after e p (files ! j) (cnt j)"
  shows "fst (run e (p, ts) schedule) = p \<and>
         length (snd (run e (p, ts) schedule)) = length files \<and>
         (\<forall>j<length files. snd (run e (p, ts) schedule) ! j =
             task_after e p (files ! j) (cnt j + count_list schedule j))"
  using assms
proof (induction schedule arbitrary: ts cnt)
  case Nil
  then show ?case by simp
next
  case (Cons i schedule)
  define ts' where "ts' = snd (step e (p, ts) i)"
  let ?cnt = "\<lambda>j. if j = i then Suc (cnt j) else cnt j"
  have s: "step e (p, ts) i = (p, ts')"
    by (simp add: ts'_def prod_eq_iff step_fst)
  have len: "length ts' = length files"
    using Cons.prems(1) by (simp add: ts'_def step_length)
  have inv: "\<forall>j<length files. ts' ! j = task_after e p (files ! j) (?cnt j)"
  proof (intro allI impI)
    fix j assume j: "j < length files"
    show "ts' ! j = task_after e p (files ! j) (?cnt j)"
    proof (cases "j = i")
      case True
      with j Cons.prems show ?thesis by (simp add: ts'_def step_own)
    next
      case False
      with j Cons.prems show ?thesis by (simp add: ts'_def step_others)
    qed
  qed
  from Cons.IH [OF len inv] show ?case
    by (simp add: s)
qed

lemma run_from_start:
  assumes "i < length files"
  shows "fst (run e (p, map Awaiting_read files) schedule) = p \<and>
         length (snd (run e (p, map Awaiting_read files) schedule)) = length files \<and>
         snd (run e (p, map Awaiting_read files) schedule) ! i =
             task_after e p (files ! i) (count_list schedule i)"
  using run_tasks [of "map Awaiting_read files" files e p "\<lambda>_. 0" schedule] assms
  by (simp add: task_after_def)

lemma run_fst: "fst (run e (p, ts) schedule) = p"
proof (induction schedule arbitrary: ts)
  case Nil
  show ?case by simp
next
  case (Cons i schedule)
  define ts' where "ts' = snd (step e (p, ts) i)"
  have "step e (p, ts) i = (p, ts')"
    by (simp add: ts'_def prod_eq_iff step_fst)
  with Cons.IH [of ts'] show ?case by simp
qed

subsection \<open>Runs of the concrete service\<close>

lemmas demo_defs =
  demo_env_def demo_process_def demo_model_def demo_forward_def demo_names_def
  demo_Image_open_def demo_rows_def

lemmas handler_defs =
  detect_objects_def handle_image_def first_result_def detection_dict_def py_int_def
  py_float_def spec_Detection_record_def

lemma demo_decodes:
  "Image_open demo_env (file_read (UploadFile (0xFF # 0xD8 # bs))) = Some (0xFF # 0xD8 # bs)"
  by (simp add: demo_defs)

lemma demo_forward_two:
  "forward (model demo_process) [0xFF, 0xD8, 1] = Some \<lparr>xyxy = [demo_rows]\<rparr>"
  by (simp add: demo_defs)

lemma demo_forward_none:
  "forward (model demo_process) [0xFF, 0xD8] = Some \<lparr>xyxy = [[]]\<rparr>"
  by (simp add: demo_defs)

lemma demo_xyxy: "xyxy \<lparr>xyxy = [t]\<rparr> = t # []"
  by simp

lemma demo_two_objects:
  "fst (detect_objects demo_env demo_process (UploadFile [0xFF, 0xD8, 1])) =
     Inr (PyDict [(''detections'', PyList
       [spec_Detection_record 0 ''person'' (Finite (9 / 10))
          (Finite 10) (Finite 20) (Finite 110) (Finite 220),
        spec_Detection_record 16 ''dog'' (Finite (1 / 2))
          (Finite 5) (Finite 6) (Finite 50) (Finite 60)])])"
  by (simp add: handler_defs demo_defs)

lemma demo_one_object:
  "fst (detect_objects demo_env demo_process (UploadFile [0xFF, 0xD8, 2])) =
     Inr (PyDict [(''detections'', PyList
       [spec_Detection_record 16 ''dog'' (Finite (3 / 4))
          (Finite 1) (Finite 2) (Finite 3) (Finite 4)])])"
  by (simp add: handler_defs demo_defs)

lemma demo_rows_convert:
  "\<forall>row\<in>set demo_rows. \<exists>d. detection_dict (names (model demo_process)) row = Inr d"
  by (simp add: detection_dict_def py_int_def demo_defs)

lemma demo_rejects_text:
  "Image_open demo_env (file_read (UploadFile [0x68, 0x65, 0x6C, 0x6C, 0x6F])) = None"
  by (simp add: demo_defs)

lemma demo_same_output:
  "forward (model demo_process) [0xFF, 0xD8, 2] =
   forward (model (demo_process\<lparr>store := []\<rparr>)) [0xFF, 0xD8, 2, 7]"
  by (simp add: demo_defs)

lemma demo_run:
  "run demo_env
       (demo_process, map Awaiting_read [UploadFile [0xFF, 0xD8, 1], UploadFile [0xFF, 0xD8, 2]])
       [0, 1, 1, 0] =
     (demo_process,
      [Responded (fst (detect_objects demo_env demo_process (UploadFile [0xFF, 0xD8, 1]))),
       Responded (fst (detect_objects demo_env demo_process (UploadFile [0xFF, 0xD8, 2])))])"
  by (simp add: step_def case_prod_beta handle_image_snd handle_image_file_read [symmetric])

lemma demo_serve:
  "serve demo_env [] [UploadFile [0xFF, 0xD8, 1], UploadFile [0xFF, 0xD8, 2]] [0, 1, 1, 0] =
     Some (demo_process,
      [Responded (fst (detect_objects demo_env demo_process (UploadFile [0xFF, 0xD8, 1]))),
       Responded (fst (detect_objects demo_env demo_process (UploadFile [0xFF, 0xD8, 2])))])"
proof -
  have "startup demo_env [] = Some demo_process"
    by (simp add: startup_def demo_env_def demo_process_def)
  with demo_run show ?thesis
    by (simp add: serve_def)
qed

lemma gap_forward:
  "forward (model gap_process) [0xFF, 0xD8] = Some \<lparr>xyxy =
     [[[Finite 10, Finite 20, Finite 110, Finite 220, Finite (9 / 10), Finite 0]] @
       [Finite 5, Finite 6, Finite 50, Finite 60, Finite (1 / 2), Finite 80] # []]\<rparr>"
  by (simp add: gap_process_def gap_model_def)

section \<open>The claims\<close>

text \<open>
  C1. When the handler returns, the element of \<^verbatim>\<open>detections\<close> at each position is
  the record built from the raw 6-tuple at that position of the model's first result
  set: \<^verbatim>\<open>class_id\<close> is the integer conversion of the tuple's class id,
  \<^verbatim>\<open>class_name\<close> is the model's table looked up at that same integer,
  \<^verbatim>\<open>confidence\<close> and \<^verbatim>\<open>bbox\<close> are the tuple's floats.
\<close>

theorem detections_follow_raw_tuples:
  assumes "Image_open e (file_read file) = Some img"
    and "forward (model p) img = Some res"
    and "xyxy res = t # others"
    and "fst (detect_objects e p file) = Inr v"
  shows "\<exists>dets. v = PyDict [(''detections'', PyList dets)] \<and> length dets = length t \<and>
           (\<forall>i<length t. \<exists>x_min y_min x_max y_max confidence class_id k name.
               t ! i = [x_min, y_min, x_max, y_max, confidence, class_id] \<and>
               py_int class_id = Inr k \<and>
               names (model p) k = Some name \<and>
               dets ! i = spec_Detection_record k name confidence x_min y_min x_max y_max)"
proof -
  from detect_objects_Inr [OF assms] obtain dets
    where v: "v = PyDict [(''detections'', PyList dets)]"
      and rel: "list_all2 (\<lambda>row d. detection_dict (names (model p)) row = Inr d) t dets"
    by blast
  from rel have len: "length dets = length t"
    by (simp add: list_all2_lengthD)
  have "\<exists>x_min y_min x_max y_max confidence class_id k name.
          t ! i = [x_min, y_min, x_max, y_max, confidence, class_id] \<and>
          py_int class_id = Inr k \<and> names (model p) k = Some name \<and>
          dets ! i = spec_Detection_record k name confidence x_min y_min x_max y_max"
    if "i < length t" for i
  proof -
    from rel that have "detection_dict (names (model p)) (t ! i) = Inr (dets ! i)"
      by (rule list_all2_nthD)
    then show ?thesis by (rule detection_dict_Inr)
  qed
  with v len show ?thesis by blast
qed

theorem detections_follow_raw_tuples_witness:
  "Image_open demo_env (file_read (UploadFile [0xFF, 0xD8, 1])) = Some [0xFF, 0xD8, 1] \<and>
   forward (model demo_process) [0xFF, 0xD8, 1] = Some \<lparr>xyxy = [demo_rows]\<rparr> \<and>
   fst (detect_objects demo_env demo_process (UploadFile [0xFF, 0xD8, 1])) =
     Inr (PyDict [(''detections'', PyList
       [spec_Detection_record 0 ''person'' (Finite (9 / 10))
          (Finite 10) (Finite 20) (Finite 110) (Finite 220),
        spec_Detection_record 16 ''dog'' (Finite (1 / 2))
          (Finite 5) (Finite 6) (Finite 50) (Finite 60)])]) \<and>
   (\<exists>dets.
      PyDict [(''detections'', PyList
       [spec_Detection_record 0 ''person'' (Finite (9 / 10))
          (Finite 10) (Finite 20) (Finite 110) (Finite 220),
        spec_Detection_record 16 ''dog'' (Finite (1 / 2))
          (Finite 5) (Finite 6) (Finite 50) (Finite 60)])] =
      PyDict [(''detections'', PyList dets)] \<and>
      length dets = length demo_rows \<and>
      (\<forall>i<length demo_rows. \<exists>x_min y_min x_max y_max confidence class_id k name.
          demo_rows ! i = [x_min, y_min, x_max, y_max, confidence, class_id] \<and>
          py_int class_id = Inr k \<and>
          names (model demo_process) k = Some name \<and>
          dets ! i = spec_Detection_record k name confidence x_min y_min x_max y_max))"
  by (intro conjI demo_decodes demo_forward_two demo_two_objects
      detections_follow_raw_tuples [OF demo_decodes demo_forward_two demo_xyxy demo_two_objects])

text \<open>
  C2. For a decodable image the handler converts the model's first result set row by
  row: a returned \<^verbatim>\<open>detections\<close> list has the length of that result set and its
  element at each position is the conversion of the row at that position (nothing is
  filtered, merged, capped or reordered, and the other result sets are not read); and
  the handler does return whenever every row converts.
\<close>

theorem one_record_per_raw_detection:
  assumes "Image_open e (file_read file) = Some img"
    and "forward (model p) img = Some res"
    and "xyxy res = t # others"
  shows "(\<forall>v. fst (detect_objects e p file) = Inr v \<longrightarrow>
            (\<exists>dets. v = PyDict [(''detections'', PyList dets)] \<and> length dets = length t \<and>
               (\<forall>i<length t. detection_dict (names (model p)) (t ! i) = Inr (dets ! i)))) \<and>
         ((\<forall>row\<in>set t. \<exists>d. detection_dict (names (model p)) row = Inr d) \<longrightarrow>
            (\<exists>v. fst (detect_objects e p file) = Inr v))"
proof (intro conjI allI impI)
  fix v assume "fst (detect_objects e p file) = Inr v"
  from detect_objects_Inr [OF assms this] obtain dets
    where v: "v = PyDict [(''detections'', PyList dets)]"
      and rel: "list_all2 (\<lambda>row d. detection_dict (names (model p)) row = Inr d) t dets"
    by blast
  from rel have "length dets = length t"
    by (simp add: list_all2_lengthD)
  moreover from rel have "\<forall>i<length t. detection_dict (names (model p)) (t ! i) = Inr (dets ! i)"
    by (simp add: list_all2_conv_all_nth)
  ultimately show "\<exists>dets. v = PyDict [(''detections'', PyList dets)] \<and> length dets = length t \<and>
      (\<forall>i<length t. detection_dict (names (model p)) (t ! i) = Inr (dets ! i))"
    using v by blast
next
  assume "\<forall>row\<in>set t. \<exists>d. detection_dict (names (model p)) row = Inr d"
  from all_rows_convert [OF this] obtain ds
    where "list_all2 (\<lambda>row d. detection_dict (names (model p)) row = Inr d) t ds" ..
  then have "detect_loop (names (model p)) t [] = Inr ds"
    using detect_loop_all_ok [of "names (model p)" t ds "[]"] by simp
  with detect_objects_result [OF assms] show "\<exists>v. fst (detect_objects e p file) = Inr v"
    by simp
qed

theorem one_record_per_raw_detection_witness:
  "Image_open demo_env (file_read (UploadFile [0xFF, 0xD8, 1])) = Some [0xFF, 0xD8, 1] \<and>
   forward (model demo_process) [0xFF, 0xD8, 1] = Some \<lparr>xyxy = [demo_rows]\<rparr> \<and>
   (\<exists>d. detection_dict (names (model demo_process)) (demo_rows ! 0) = Inr d) \<and>
   (\<exists>d. detection_dict (names (model demo_process)) (demo_rows ! 1) = Inr d) \<and>
   (\<exists>dets. fst (detect_objects demo_env demo_process (UploadFile [0xFF, 0xD8, 1])) =
        Inr (PyDict [(''detections'', PyList dets)]) \<and>
      length dets = length demo_rows \<and>
      (\<forall>i<length demo_rows.
          detection_dict (names (model demo_process)) (demo_rows ! i) = Inr (dets ! i)))"
proof -
  have c0: "\<exists>d. detection_dict (names (model demo_process)) (demo_rows ! 0) = Inr d"
    and c1: "\<exists>d. detection_dict (names (model demo_process)) (demo_rows ! 1) = Inr d"
    by (simp_all add: detection_dict_def py_int_def demo_defs)
  note inst = one_record_per_raw_detection [OF demo_decodes demo_forward_two demo_xyxy]
  from inst demo_rows_convert
  obtain v where v: "fst (detect_objects demo_env demo_process (UploadFile [0xFF, 0xD8, 1])) = Inr v"
    by blast
  with inst have "\<exists>dets. v = PyDict [(''detections'', PyList dets)] \<and>
      length dets = length demo_rows \<and>
      (\<forall>i<length demo_rows.
          detection_dict (names (model demo_process)) (demo_rows ! i) = Inr (dets ! i))"
    by blast
  with v have "\<exists>dets. fst (detect_objects demo_env demo_process (UploadFile [0xFF, 0xD8, 1])) =
        Inr (PyDict [(''detections'', PyList dets)]) \<and>
      length dets = length demo_rows \<and>
      (\<forall>i<length demo_rows.
          detection_dict (names (model demo_process)) (demo_rows ! i) = Inr (dets ! i))"
    by auto
  then show ?thesis
    by (intro conjI demo_decodes demo_forward_two c0 c1)
qed

text \<open>
  C3. When the upload decodes and the model's first result set is empty, the handler
  returns exactly \<^verbatim>\<open>{"detections": []}\<close>.
\<close>

theorem empty_result_set_gives_empty_detections:
  assumes "Image_open e (file_read file) = Some img"
    and "forward (model p) img = Some res"
    and "xyxy res = [] # others"
  shows "fst (detect_objects e p file) = Inr (PyDict [(''detections'', PyList [])])"
  using detect_objects_result [OF assms] by simp

theorem empty_result_set_witness:
  "Image_open demo_env (file_read (UploadFile [0xFF, 0xD8])) = Some [0xFF, 0xD8] \<and>
   forward (model demo_process) [0xFF, 0xD8] = Some \<lparr>xyxy = [[]]\<rparr> \<and>
   fst (detect_objects demo_env demo_process (UploadFile [0xFF, 0xD8])) =
     Inr (PyDict [(''detections'', PyList [])])"
  by (intro conjI demo_decodes demo_forward_none
      empty_result_set_gives_empty_detections [OF demo_decodes demo_forward_none demo_xyxy])

text \<open>
  C4. For a decodable image whose raw detections meet the detector's contract, every
  element of the returned \<^verbatim>\<open>detections\<close> list is the record of its raw detection
  with the floats copied: its \<^verbatim>\<open>confidence\<close> is a finite float in \<open>[0, 1]\<close> and its
  \<^verbatim>\<open>bbox\<close> is four finite floats with \<open>x_min \<le> x_max\<close> and \<open>y_min \<le> y_max\<close>.
\<close>

theorem detections_within_bounds:
  assumes "Image_open e (file_read file) = Some img"
    and "forward (model p) img = Some res"
    and "detector_contract res"
    and "xyxy res = t # others"
    and "fst (detect_objects e p file) = Inr v"
  shows "\<exists>dets. v = PyDict [(''detections'', PyList dets)] \<and> length dets = length t \<and>
           (\<forall>i<length t. \<exists>k name class_id c x0 y0 x1 y1.
               t ! i = [Finite x0, Finite y0, Finite x1, Finite y1, Finite c, class_id] \<and>
               dets ! i = spec_Detection_record k name
                            (Finite c) (Finite x0) (Finite y0) (Finite x1) (Finite y1) \<and>
               0 \<le> c \<and> c \<le> 1 \<and> x0 \<le> x1 \<and> y0 \<le> y1 \<and>
               spec_record_bounds (dets ! i))"
proof -
  from detect_objects_Inr [OF assms(1,2,4,5)] obtain dets
    where v: "v = PyDict [(''detections'', PyList dets)]"
      and rel: "list_all2 (\<lambda>row d. detection_dict (names (model p)) row = Inr d) t dets"
    by blast
  from rel have len: "length dets = length t"
    by (simp add: list_all2_lengthD)
  from assms(3,4) have rows: "\<forall>row\<in>set t. spec_row_bounds row"
    by (simp add: detector_contract_def list_all_iff)
  have "\<exists>k name class_id c x0 y0 x1 y1.
          t ! i = [Finite x0, Finite y0, Finite x1, Finite y1, Finite c, class_id] \<and>
          dets ! i = spec_Detection_record k name
                       (Finite c) (Finite x0) (Finite y0) (Finite x1) (Finite y1) \<and>
          0 \<le> c \<and> c \<le> 1 \<and> x0 \<le> x1 \<and> y0 \<le> y1 \<and>
          spec_record_bounds (dets ! i)"
    if i: "i < length t" for i
  proof -
    from rel i have conv: "detection_dict (names (model p)) (t ! i) = Inr (dets ! i)"
      by (rule list_all2_nthD)
    from rows i have ok: "spec_row_bounds (t ! i)"
      by simp
    from record_bounds_of_row [OF conv] ok have "spec_record_bounds (dets ! i)"
      by simp
    with detection_dict_within_bounds [OF conv ok] show ?thesis
      by blast
  qed
  with v len show ?thesis by blast
qed

theorem detections_within_bounds_witness:
  "Image_open demo_env (file_read (UploadFile [0xFF, 0xD8, 1])) = Some [0xFF, 0xD8, 1] \<and>
   forward (model demo_process) [0xFF, 0xD8, 1] = Some \<lparr>xyxy = [demo_rows]\<rparr> \<and>
   detector_contract \<lparr>xyxy = [demo_rows]\<rparr> \<and>
   fst (detect_objects demo_env demo_process (UploadFile [0xFF, 0xD8, 1])) =
     Inr (PyDict [(''detections'', PyList
       [spec_Detection_record 0 ''person'' (Finite (9 / 10))
          (Finite 10) (Finite 20) (Finite 110) (Finite 220),
        spec_Detection_record 16 ''dog'' (Finite (1 / 2))
          (Finite 5) (Finite 6) (Finite 50) (Finite 60)])]) \<and>
   (\<exists>dets.
      PyDict [(''detections'', PyList
       [spec_Detection_record 0 ''person'' (Finite (9 / 10))
          (Finite 10) (Finite 20) (Finite 110) (Finite 220),
        spec_Detection_record 16 ''dog'' (Finite (1 / 2))
          (Finite 5) (Finite 6) (Finite 50) (Finite 60)])] =
      PyDict [(''detections'', PyList dets)] \<and>
      length dets = length demo_rows \<and>
      (\<forall>i<length demo_rows. \<exists>k name class_id c x0 y0 x1 y1.
          demo_rows ! i = [Finite x0, Finite y0, Finite x1, Finite y1, Finite c, class_id] \<and>
          dets ! i = spec_Detection_record k name
                       (Finite c) (Finite x0) (Finite y0) (Finite x1) (Finite y1) \<and>
          0 \<le> c \<and> c \<le> 1 \<and> x0 \<le> x1 \<and> y0 \<le> y1 \<and>
          spec_record_bounds (dets ! i)))"
proof -
  have contract: "detector_contract \<lparr>xyxy = [demo_rows]\<rparr>"
    by (simp add: detector_contract_def spec_row_bounds_def spec_bounds_def
        spec_confidence_ok_def spec_finite_le_def demo_rows_def)
  show ?thesis
    by (intro conjI demo_decodes demo_forward_two contract demo_two_objects
        detections_within_bounds
          [OF demo_decodes demo_forward_two contract demo_xyxy demo_two_objects])
qed

text \<open>
  C5. An upload that the image decoder rejects makes the handler fail with the
  decoding error; it returns no success value.
\<close>

theorem undecodable_upload_fails:
  assumes "Image_open e (file_read file) = None"
  shows "fst (detect_objects e p file) = Inl DecodeError \<and>
         (\<forall>v. fst (detect_objects e p file) \<noteq> Inr v)"
  using assms by (simp add: detect_objects_def handle_image_def)

theorem undecodable_upload_fails_witness:
  "Image_open demo_env (file_read (UploadFile [0x68, 0x65, 0x6C, 0x6C, 0x6F])) = None \<and>
   fst (detect_objects demo_env demo_process (UploadFile [0x68, 0x65, 0x6C, 0x6C, 0x6F])) =
     Inl DecodeError \<and>
   (\<forall>v. fst (detect_objects demo_env demo_process (UploadFile [0x68, 0x65, 0x6C, 0x6C, 0x6F])) \<noteq>
     Inr v)"
  using undecodable_upload_fails [OF demo_rejects_text, of demo_process] demo_rejects_text
  by blast

text \<open>
  C6. The handler's result is a function of the model handle and the upload: two calls
  with the same model handle and the same upload return the same result, whatever the
  rest of the process state; and more generally two calls whose images decode and whose
  model outputs and name tables are equal return the same result.
\<close>

theorem equal_model_outputs_equal_responses:
  "(model p1 = model p2 \<longrightarrow> fst (detect_objects e p1 file) = fst (detect_objects e p2 file)) \<and>
   (Image_open e1 (file_read file1) = Some img1 \<and> Image_open e2 (file_read file2) = Some img2 \<and>
    forward (model p1) img1 = forward (model p2) img2 \<and> names (model p1) = names (model p2) \<longrightarrow>
      fst (detect_objects e1 p1 file1) = fst (detect_objects e2 p2 file2))"
  by (auto simp: detect_objects_def handle_image_def split: option.splits sum.splits)

theorem equal_model_outputs_witness:
  "model demo_process = model (demo_process\<lparr>store := []\<rparr>) \<and>
   demo_process \<noteq> demo_process\<lparr>store := []\<rparr> \<and>
   fst (detect_objects demo_env demo_process (UploadFile [0xFF, 0xD8, 1])) =
   fst (detect_objects demo_env (demo_process\<lparr>store := []\<rparr>) (UploadFile [0xFF, 0xD8, 1])) \<and>
   Image_open demo_env (file_read (UploadFile [0xFF, 0xD8, 2])) = Some [0xFF, 0xD8, 2] \<and>
   Image_open demo_env (file_read (UploadFile [0xFF, 0xD8, 2, 7])) = Some [0xFF, 0xD8, 2, 7] \<and>
   forward (model demo_process) [0xFF, 0xD8, 2] =
     forward (model (demo_process\<lparr>store := []\<rparr>)) [0xFF, 0xD8, 2, 7] \<and>
   fst (detect_objects demo_env demo_process (UploadFile [0xFF, 0xD8, 2])) =
   fst (detect_objects demo_env (demo_process\<lparr>store := []\<rparr>) (UploadFile [0xFF, 0xD8, 2, 7]))"
proof -
  have m: "model demo_process = model (demo_process\<lparr>store := []\<rparr>)"
    by simp
  have n: "names (model demo_process) = names (model (demo_process\<lparr>store := []\<rparr>))"
    by simp
  have d: "demo_process \<noteq> demo_process\<lparr>store := []\<rparr>"
    by (simp add: demo_process_def)
  note inst = equal_model_outputs_equal_responses
    [of demo_process "demo_process\<lparr>store := []\<rparr>" demo_env "UploadFile [0xFF, 0xD8, 1]"
        demo_env "UploadFile [0xFF, 0xD8, 2]" "[0xFF, 0xD8, 2]"
        demo_env "UploadFile [0xFF, 0xD8, 2, 7]" "[0xFF, 0xD8, 2, 7]"]
  note one = inst [THEN conjunct1, THEN mp, OF m]
  note two = inst [THEN conjunct2, THEN mp,
      OF conjI [OF demo_decodes conjI [OF demo_decodes conjI [OF demo_same_output n]]]]
  show ?thesis
    by (intro conjI m d one two demo_same_output demo_decodes)
qed

text \<open>
  C7. However the event loop interleaves the requests in flight, a request that has
  been answered has received the result of the handler on its own upload, and a
  request that has been resumed twice has been answered.
\<close>

theorem each_request_gets_its_own_detections:
  assumes "run e (p, map Awaiting_read files) schedule = (p', tasks)"
    and "i < length files"
  shows "length tasks = length files \<and>
         tasks ! i = task_after e p (files ! i) (count_list schedule i) \<and>
         (\<forall>r. tasks ! i = Responded r \<longrightarrow> r = fst (detect_objects e p (files ! i))) \<and>
         (2 \<le> count_list schedule i \<longrightarrow> tasks ! i = Responded (fst (detect_objects e p (files ! i))))"
proof -
  from run_from_start [OF assms(2), of e p schedule] assms(1)
  have len: "length tasks = length files"
    and own: "tasks ! i = task_after e p (files ! i) (count_list schedule i)"
    by simp_all
  from own have "\<forall>r. tasks ! i = Responded r \<longrightarrow> r = fst (detect_objects e p (files ! i))"
    by (simp add: task_after_def split: if_splits)
  moreover from own have
    "2 \<le> count_list schedule i \<longrightarrow> tasks ! i = Responded (fst (detect_objects e p (files ! i)))"
    by (simp add: task_after_def)
  ultimately show ?thesis using len own by blast
qed

theorem each_request_gets_its_own_detections_witness:
  "run demo_env
       (demo_process, map Awaiting_read [UploadFile [0xFF, 0xD8, 1], UploadFile [0xFF, 0xD8, 2]])
       [0, 1, 1, 0] =
     (demo_process,
      [Responded (fst (detect_objects demo_env demo_process (UploadFile [0xFF, 0xD8, 1]))),
       Responded (fst (detect_objects demo_env demo_process (UploadFile [0xFF, 0xD8, 2])))]) \<and>
   (1::nat) < length [UploadFile [0xFF, 0xD8, 1], UploadFile [0xFF, 0xD8, 2]] \<and>
   2 \<le> count_list [0, 1, 1, 0] (1::nat) \<and>
   [Responded (fst (detect_objects demo_env demo_process (UploadFile [0xFF, 0xD8, 1]))),
    Responded (fst (detect_objects demo_env demo_process (UploadFile [0xFF, 0xD8, 2])))] ! 1 =
     Responded (fst (detect_objects demo_env demo_process
        ([UploadFile [0xFF, 0xD8, 1], UploadFile [0xFF, 0xD8, 2]] ! 1))) \<and>
   fst (detect_objects demo_env demo_process
        ([UploadFile [0xFF, 0xD8, 1], UploadFile [0xFF, 0xD8, 2]] ! 1)) =
     Inr (PyDict [(''detections'', PyList
       [spec_Detection_record 16 ''dog'' (Finite (3 / 4))
          (Finite 1) (Finite 2) (Finite 3) (Finite 4)])])"
proof -
  have i: "(1::nat) < length [UploadFile [0xFF, 0xD8, 1], UploadFile [0xFF, 0xD8, 2]]"
    by simp
  have c: "2 \<le> count_list [0, 1, 1, 0] (1::nat)"
    by simp
  from each_request_gets_its_own_detections [OF demo_run i] c
  have own: "[Responded (fst (detect_objects demo_env demo_process (UploadFile [0xFF, 0xD8, 1]))),
    Responded (fst (detect_objects demo_env demo_process (UploadFile [0xFF, 0xD8, 2])))] ! 1 =
     Responded (fst (detect_objects demo_env demo_process
        ([UploadFile [0xFF, 0xD8, 1], UploadFile [0xFF, 0xD8, 2]] ! 1)))"
    by blast
  have r: "fst (detect_objects demo_env demo_process
        ([UploadFile [0xFF, 0xD8, 1], UploadFile [0xFF, 0xD8, 2]] ! 1)) =
     Inr (PyDict [(''detections'', PyList
       [spec_Detection_record 16 ''dog'' (Finite (3 / 4))
          (Finite 1) (Finite 2) (Finite 3) (Finite 4)])])"
    using demo_one_object by simp
  show ?thesis
    by (intro conjI demo_run i c own r)
qed

text \<open>
  C8. Whatever requests have been served and in whatever order, the process state is
  the one the startup produced: its model handle and store are those returned by the
  single \<^verbatim>\<open>torch.hub.load('ultralytics/yolov5', 'yolov5s')\<close> of the module level, and
  no request is served unless that load succeeded.
\<close>

theorem model_handle_fixed_at_startup:
  assumes "serve e st files schedule = Some (p, tasks)"
  shows "hub_load e ''ultralytics/yolov5'' ''yolov5s'' st = Some (model p, store p) \<and>
         startup e st = Some p"
proof -
  from assms obtain p0 where s: "startup e st = Some p0"
    and r: "run e (p0, map Awaiting_read files) schedule = (p, tasks)"
    by (auto simp: serve_def split: option.splits)
  from r run_fst [of e p0 "map Awaiting_read files" schedule] have "p = p0" by simp
  with s show ?thesis
    by (auto simp: startup_def split: option.splits)
qed

theorem model_handle_fixed_at_startup_witness:
  "serve demo_env [] [UploadFile [0xFF, 0xD8, 1], UploadFile [0xFF, 0xD8, 2]] [0, 1, 1, 0] =
     Some (demo_process,
      [Responded (fst (detect_objects demo_env demo_process (UploadFile [0xFF, 0xD8, 1]))),
       Responded (fst (detect_objects demo_env demo_process (UploadFile [0xFF, 0xD8, 2])))]) \<and>
   hub_load demo_env ''ultralytics/yolov5'' ''yolov5s'' [] =
     Some (model demo_process, store demo_process) \<and>
   startup demo_env [] = Some demo_process"
  by (intro conjI demo_serve model_handle_fixed_at_startup [OF demo_serve, THEN conjunct1]
      model_handle_fixed_at_startup [OF demo_serve, THEN conjunct2])

text \<open>
  C9. A call of the handler, failing or not, hands back the process state (the model
  handle and the external store) it was given; resuming a request changes neither the
  process state nor any other request in flight.
\<close>

theorem handler_leaves_process_unchanged:
  "snd (detect_objects e p file) = p \<and>
   fst (step e (p, tasks) i) = p \<and>
   length (snd (step e (p, tasks) i)) = length tasks \<and>
   (\<forall>j. j \<noteq> i \<longrightarrow> snd (step e (p, tasks) i) ! j = tasks ! j)"
  by (simp add: detect_objects_snd step_fst step_length step_others)

theorem handler_leaves_process_unchanged_witness:
  "snd (detect_objects demo_env demo_process (UploadFile [0xFF, 0xD8, 1])) = demo_process \<and>
   fst (step demo_env (demo_process, [Read_done [0xFF, 0xD8, 1], Awaiting_read (UploadFile [0x68])]) 0) =
     demo_process \<and>
   (1::nat) \<noteq> 0 \<and>
   snd (step demo_env (demo_process, [Read_done [0xFF, 0xD8, 1], Awaiting_read (UploadFile [0x68])]) 0) ! 1 =
     [Read_done [0xFF, 0xD8, 1], Awaiting_read (UploadFile [0x68])] ! 1"
  using handler_leaves_process_unchanged
    [of demo_env demo_process "UploadFile [0xFF, 0xD8, 1]"
        "[Read_done [0xFF, 0xD8, 1], Awaiting_read (UploadFile [0x68])]" 0]
  by simp

text \<open>
  C10. If the first result set holds a detection whose converted class id has no entry
  in the model's name table, the handler raises and returns no response; the error is
  the lookup error when the rows before it convert.
\<close>

theorem missing_class_name_raises:
  assumes "Image_open e (file_read file) = Some img"
    and "forward (model p) img = Some res"
    and "xyxy res = (pre @ [x_min, y_min, x_max, y_max, confidence, class_id] # post) # others"
    and "py_int class_id = Inr k"
    and "names (model p) k = None"
  shows "(\<exists>err. fst (detect_objects e p file) = Inl err) \<and>
         ((\<forall>row\<in>set pre. \<exists>d. detection_dict (names (model p)) row = Inr d) \<longrightarrow>
            fst (detect_objects e p file) = Inl LookupError)"
proof -
  let ?row = "[x_min, y_min, x_max, y_max, confidence, class_id]"
  let ?nms = "names (model p)"
  have row: "detection_dict ?nms ?row = Inl LookupError"
    using assms(4,5) by (simp add: detection_dict_def)
  note res = detect_objects_result [OF assms(1-3)]
  from detect_loop_fails [OF row, of pre post "[]"] res
  have "\<exists>err. fst (detect_objects e p file) = Inl err" by auto
  moreover have "fst (detect_objects e p file) = Inl LookupError"
    if "\<forall>row\<in>set pre. \<exists>d. detection_dict ?nms row = Inr d"
  proof -
    from all_rows_convert [OF that] obtain ds
      where "list_all2 (\<lambda>row d. detection_dict ?nms row = Inr d) pre ds" ..
    then have "detect_loop ?nms pre [] = Inr ([] @ ds)" by (rule detect_loop_all_ok)
    from detect_loop_append [OF this, of "?row # post"] row
    have "detect_loop ?nms (pre @ ?row # post) [] = Inl LookupError" by simp
    with res show ?thesis by simp
  qed
  ultimately show ?thesis by blast
qed

theorem missing_class_name_raises_witness:
  "Image_open demo_env (file_read (UploadFile [0xFF, 0xD8])) = Some [0xFF, 0xD8] \<and>
   py_int (Finite 80) = Inr 80 \<and>
   names (model gap_process) 80 = None \<and>
   (\<exists>d. detection_dict (names (model gap_process))
      [Finite 10, Finite 20, Finite 110, Finite 220, Finite (9 / 10), Finite 0] = Inr d) \<and>
   fst (detect_objects demo_env gap_process (UploadFile [0xFF, 0xD8])) = Inl LookupError"
proof -
  have k: "py_int (Finite 80) = Inr 80"
    by (simp add: py_int_def)
  have n: "names (model gap_process) 80 = None"
    by (simp add: gap_process_def gap_model_def demo_names_def)
  have first: "\<exists>d. detection_dict (names (model gap_process))
      [Finite 10, Finite 20, Finite 110, Finite 220, Finite (9 / 10), Finite 0] = Inr d"
    by (simp add: detection_dict_def py_int_def gap_process_def gap_model_def demo_names_def)
  then have pre:
    "\<forall>row\<in>set [[Finite 10, Finite 20, Finite 110, Finite 220, Finite (9 / 10), Finite 0]].
      \<exists>d. detection_dict (names (model gap_process)) row = Inr d"
    by simp
  from missing_class_name_raises [OF demo_decodes gap_forward demo_xyxy k n] pre
  have "fst (detect_objects demo_env gap_process (UploadFile [0xFF, 0xD8])) = Inl LookupError"
    by blast
  then show ?thesis
    by (intro conjI demo_decodes k n first)
qed

end
